theory Spec2Isabelle
  imports Main
begin

section \<open>JavaScript values\<close>

text \<open>
  The values that reach the handlers of \<^verbatim>\<open>server.js\<close>: fields of a parsed JSON or
  multipart body, query-string parameters, and the row objects the database driver hands
  to a query callback. An object keeps its properties in insertion order. Numbers are the
  integers (JSON cannot carry \<^verbatim>\<open>NaN\<close>, and no handler does arithmetic on a field).
\<close>

datatype jsval =
    JUndefined
  | JNull
  | JBool bool
  | JNum int
  | JStr string
  | JArr "jsval list"
  | JObj "(string \<times> jsval) list"

text \<open>\<^verbatim>\<open>!v\<close>: the values JavaScript coerces to false.\<close>

fun falsy :: "jsval \<Rightarrow> bool" where
  "falsy JUndefined = True"
| "falsy JNull = True"
| "falsy (JBool b) = (\<not> b)"
| "falsy (JNum n) = (n = 0)"
| "falsy (JStr s) = (s = [])"
| "falsy (JArr xs) = False"
| "falsy (JObj ps) = False"

text \<open>\<^verbatim>\<open>obj.k\<close> and destructuring: a property that is not there reads as undefined.\<close>

definition field :: "(string \<times> jsval) list \<Rightarrow> string \<Rightarrow> jsval" where
  "field obj k = (case map_of obj k of None \<Rightarrow> JUndefined | Some v \<Rightarrow> v)"

text \<open>\<^verbatim>\<open>const { password: _, ...rest } = obj\<close>: every own property but the named one.\<close>

definition without :: "string \<Rightarrow> (string \<times> jsval) list \<Rightarrow> (string \<times> jsval) list" where
  "without k obj = filter (\<lambda>p. fst p \<noteq> k) obj"

section \<open>What the server takes from its libraries\<close>

text \<open>
  \<^verbatim>\<open>bcrypt\<close>, the MySQL server and Node's \<^verbatim>\<open>path\<close> are not part of the repository.
  Their functions are parameters of the model:
  \<^item> \<open>bcrypt_digest data rounds salt\<close> is the hash string bcrypt computes;
  \<^item> \<open>bcrypt_verify data hash\<close> is the answer of bcrypt's comparison;
  \<^item> \<open>sql_equal p v\<close> says whether the MySQL server finds the bound parameter \<open>p\<close>
    equal to the column value \<open>v\<close> (its coercions and collation are its own);
  \<^item> \<open>path_extname name\<close> is \<^verbatim>\<open>path.extname(name)\<close>;
  \<^item> \<open>aborts_at_limit\<close> says whether the installed multer also aborts a file of
    exactly \<^verbatim>\<open>limits.fileSize\<close> bytes (its parser changed this between versions); a
    longer file is aborted by every version.
\<close>

record lib =
  bcrypt_digest :: "string \<Rightarrow> nat \<Rightarrow> string \<Rightarrow> string"
  bcrypt_verify :: "string \<Rightarrow> string \<Rightarrow> bool"
  sql_equal :: "jsval \<Rightarrow> jsval \<Rightarrow> bool"
  path_extname :: "string \<Rightarrow> string"
  aborts_at_limit :: bool

text \<open>
  What one request observes of the world: the salt bcrypt draws, the server clock that
  fills \<^verbatim>\<open>reg_date\<close>, and the error code, if any, with which the store fails the
  request's query for a reason of its own (a lost connection, a value that does not fit
  its column).
\<close>

record env =
  salt :: string
  clock :: nat
  store_fault :: "string option"

text \<open>
  \<^verbatim>\<open>bcrypt.hash(data, rounds)\<close> and \<^verbatim>\<open>bcrypt.compare(data, hash)\<close> as promises: \<open>Inl\<close> is
  the rejection. Both reject data that is not a string.
\<close>

definition bcrypt_hash :: "lib \<Rightarrow> env \<Rightarrow> jsval \<Rightarrow> nat \<Rightarrow> string + string" where
  "bcrypt_hash L E data rounds =
     (case data of
        JStr d \<Rightarrow> Inr (bcrypt_digest L d rounds (salt E))
      | JUndefined \<Rightarrow> Inl ''data and salt arguments required''
      | JNull \<Rightarrow> Inl ''data and salt arguments required''
      | _ \<Rightarrow> Inl ''data must be a string or Buffer and salt must either be a salt string or a number of rounds'')"

fun bcrypt_compare :: "lib \<Rightarrow> jsval \<Rightarrow> jsval \<Rightarrow> string + bool" where
  "bcrypt_compare L JUndefined h = Inl ''data and hash arguments required''"
| "bcrypt_compare L JNull h = Inl ''data and hash arguments required''"
| "bcrypt_compare L d JUndefined = Inl ''data and hash arguments required''"
| "bcrypt_compare L d JNull = Inl ''data and hash arguments required''"
| "bcrypt_compare L (JStr d) (JStr h) = Inr (bcrypt_verify L d h)"
| "bcrypt_compare L d h = Inl ''data and hash must be strings''"

section \<open>The users table\<close>

text \<open>
  The table of \<^verbatim>\<open>CREATE TABLE IF NOT EXISTS users\<close>: its rows as the driver returns them
  (an object per row, a property per column) and the counter of the
  \<^verbatim>\<open>AUTO_INCREMENT\<close> key.
\<close>

type_synonym row = "(string \<times> jsval) list"

record users_table =
  rows :: "row list"
  auto_increment :: nat

text \<open>
  The driver sends an undefined parameter as \<^verbatim>\<open>NULL\<close>. Any other value is kept as it
  was bound: the server's conversion to the type of the column is not modelled.
\<close>

definition sql_bind :: "jsval \<Rightarrow> jsval" where
  "sql_bind v = (if v = JUndefined then JNull else v)"

definition insert_columns :: "string list" where
  "insert_columns =
     [''fullname'', ''email'', ''password'', ''age'', ''gender'', ''profile_image'', ''cv_filename'']"

definition not_null_columns :: "string list" where
  "not_null_columns = [''fullname'', ''email'', ''password'']"

text \<open>
  \<^verbatim>\<open>INSERT INTO users (fullname, email, password, age, gender, profile_image, cv_filename)
  VALUES (?, ?, ?, ?, ?, ?, ?)\<close>. The result is the error code or the new id. The
  \<^verbatim>\<open>UNIQUE\<close> index on \<^verbatim>\<open>email\<close> refuses a value the server finds equal to a stored
  one.
\<close>

definition new_row :: "env \<Rightarrow> users_table \<Rightarrow> jsval list \<Rightarrow> row" where
  "new_row E t params =
     (''id'', JNum (int (auto_increment t)))
       # zip insert_columns (map sql_bind params)
       @ [(''reg_date'', JNum (int (clock E)))]"

definition email_taken :: "lib \<Rightarrow> jsval \<Rightarrow> users_table \<Rightarrow> bool" where
  "email_taken L e t = list_ex (\<lambda>r. sql_equal L e (field r ''email'')) (rows t)"

definition insert_user ::
  "lib \<Rightarrow> env \<Rightarrow> jsval list \<Rightarrow> users_table \<Rightarrow> (string + nat) \<times> users_table" where
  "insert_user L E params t =
     (let r = new_row E t params in
      case store_fault E of
        Some code \<Rightarrow> (Inl code, t)
      | None \<Rightarrow>
          if list_ex (\<lambda>c. field r c = JNull) not_null_columns then (Inl ''ER_BAD_NULL_ERROR'', t)
          else if email_taken L (field r ''email'') t then (Inl ''ER_DUP_ENTRY'', t)
          else (Inr (auto_increment t),
                t\<lparr>rows := rows t @ [r], auto_increment := Suc (auto_increment t)\<rparr>))"

text \<open>\<^verbatim>\<open>SELECT * FROM users WHERE email = ?\<close>\<close>

definition select_by_email :: "lib \<Rightarrow> env \<Rightarrow> jsval \<Rightarrow> users_table \<Rightarrow> string + row list" where
  "select_by_email L E p t =
     (case store_fault E of
        Some code \<Rightarrow> Inl code
      | None \<Rightarrow> Inr (filter (\<lambda>r. sql_equal L p (field r ''email'')) (rows t)))"

text \<open>
  \<^verbatim>\<open>SELECT id, fullname, email, age, gender, profile_image, cv_filename, reg_date
  FROM users WHERE id = ?\<close>
\<close>

definition dashboard_columns :: "string list" where
  "dashboard_columns =
     [''id'', ''fullname'', ''email'', ''age'', ''gender'', ''profile_image'', ''cv_filename'',
      ''reg_date'']"

definition project :: "string list \<Rightarrow> row \<Rightarrow> row" where
  "project cols r = map (\<lambda>c. (c, field r c)) cols"

definition select_by_id :: "lib \<Rightarrow> env \<Rightarrow> jsval \<Rightarrow> users_table \<Rightarrow> string + row list" where
  "select_by_id L E p t =
     (case store_fault E of
        Some code \<Rightarrow> Inl code
      | None \<Rightarrow>
          Inr (map (project dashboard_columns)
                 (filter (\<lambda>r. sql_equal L p (field r ''id'')) (rows t))))"

section \<open>Uploads\<close>

text \<open>
  A file part of a multipart request as multer presents it to \<^verbatim>\<open>fileFilter\<close> and to
  the storage engine, with the number of bytes its stream carries; and the file object
  multer leaves in \<^verbatim>\<open>req.files\<close> once the part is stored. A part without a file name
  carries no file: multer drops it unseen, and it is not among the parts here.
\<close>

record part =
  fieldname :: string
  originalname :: string
  mimetype :: string
  filesize :: nat

record stored = part +
  filename :: string

text \<open>\<^verbatim>\<open>s.startsWith(p)\<close>\<close>

definition startsWith :: "string \<Rightarrow> string \<Rightarrow> bool" where
  "startsWith s p = (take (length p) s = p)"

text \<open>A non-negative integer printed in decimal, as \<^verbatim>\<open>+\<close> with a string prints it.\<close>

definition digit :: "nat \<Rightarrow> char" where
  "digit d = ''0123456789'' ! d"

fun decimal :: "nat \<Rightarrow> string" where
  "decimal n = (if n < 10 then [digit n] else decimal (n div 10) @ [digit (n mod 10)])"

declare decimal.simps [simp del]

text \<open>
  \<^verbatim>\<open>storage.filename\<close>. \<open>now\<close> is \<^verbatim>\<open>Date.now()\<close> and \<open>rnd\<close> is
  \<^verbatim>\<open>Math.round(Math.random() * 1E9)\<close> at the call.
\<close>

definition storage_filename :: "lib \<Rightarrow> nat \<Rightarrow> nat \<Rightarrow> part \<Rightarrow> string" where
  "storage_filename L now rnd file =
     (let uniqueSuffix = decimal now @ ''-'' @ decimal rnd in
      if fieldname file = ''image'' then
        ''profile-'' @ uniqueSuffix @ path_extname L (originalname file)
      else if fieldname file = ''cv'' then
        ''cv-'' @ uniqueSuffix @ path_extname L (originalname file)
      else fieldname file @ ''-'' @ uniqueSuffix @ path_extname L (originalname file))"

text \<open>\<^verbatim>\<open>fileFilter\<close>: the arguments of its callback, \<open>Inl\<close> the error's message.\<close>

definition fileFilter :: "part \<Rightarrow> string + bool" where
  "fileFilter file =
     (if fieldname file = ''image'' \<and> startsWith (mimetype file) ''image/'' then Inr True
      else if fieldname file = ''cv'' \<and> mimetype file = ''application/pdf'' then Inr True
      else Inl ''Invalid file type'')"

text \<open>
  \<^verbatim>\<open>upload\<close>: the limit of \<^verbatim>\<open>multer({ limits: { fileSize: 10 * 1024 * 1024 } })\<close> and
  the fields of \<^verbatim>\<open>upload.fields([{ name: 'image', maxCount: 1 }, { name: 'cv', maxCount: 1 }])\<close>.
\<close>

definition upload_fileSize :: nat where
  "upload_fileSize = 10 * 1024 * 1024"

definition over_limit :: "lib \<Rightarrow> nat \<Rightarrow> bool" where
  "over_limit L n = (upload_fileSize < n \<or> (n = upload_fileSize \<and> aborts_at_limit L))"

definition upload_fields :: "(string \<times> nat) list" where
  "upload_fields = [(''image'', 1), (''cv'', 1)]"

datatype upload_error = LIMIT_UNEXPECTED_FILE | LIMIT_FILE_SIZE | FilterError string

text \<open>
  What multer does with a file part. It first looks the field up among the files it
  still expects and then asks \<^verbatim>\<open>fileFilter\<close>: \<open>admit\<close> is \<open>Inr True\<close> when the part goes
  on to the storage engine, \<open>Inr False\<close> when it is skipped, and an error when the request
  is aborted.
\<close>

definition admit :: "(string \<times> nat) list \<Rightarrow> part \<Rightarrow> upload_error + bool" where
  "admit left file =
     (case map_of left (fieldname file) of
        None \<Rightarrow> Inl LIMIT_UNEXPECTED_FILE
      | Some n \<Rightarrow>
          if n = 0 then Inl LIMIT_UNEXPECTED_FILE
          else (case fileFilter file of
                  Inl msg \<Rightarrow> Inl (FilterError msg)
                | Inr ok \<Rightarrow> Inr ok))"

definition expect_one_less :: "string \<Rightarrow> (string \<times> nat) list \<Rightarrow> (string \<times> nat) list" where
  "expect_one_less k left = map (\<lambda>p. if fst p = k then (fst p, snd p - 1) else p) left"

definition append_file :: "(string \<times> stored list) list \<Rightarrow> stored \<Rightarrow> (string \<times> stored list) list" where
  "append_file fs f =
     (case map_of fs (fieldname f) of
        None \<Rightarrow> fs @ [(fieldname f, [f])]
      | Some arr \<Rightarrow> map (\<lambda>p. if fst p = fieldname f then (fst p, snd p @ [f]) else p) fs)"

text \<open>
  The storage engine names the file and writes its stream; a stream that passes the
  limit aborts the request. Each part comes with the clock and the random draw of its
  call of \<^verbatim>\<open>storage.filename\<close>. The result is \<^verbatim>\<open>req.files\<close>.
\<close>

fun multer ::
  "lib \<Rightarrow> (string \<times> nat) list \<Rightarrow> (part \<times> nat \<times> nat) list \<Rightarrow> (string \<times> stored list) list
     \<Rightarrow> upload_error + (string \<times> stored list) list" where
  "multer L left [] fs = Inr fs"
| "multer L left ((file, now, rnd) # queue) fs =
     (case admit left file of
        Inl e \<Rightarrow> Inl e
      | Inr False \<Rightarrow> multer L (expect_one_less (fieldname file) left) queue fs
      | Inr True \<Rightarrow>
          (let name = storage_filename L now rnd file in
           if over_limit L (filesize file) then Inl LIMIT_FILE_SIZE
           else multer L (expect_one_less (fieldname file) left) queue
                  (append_file fs
                     \<lparr>fieldname = fieldname file, originalname = originalname file,
                      mimetype = mimetype file, filesize = filesize file, filename = name\<rparr>)))"

section \<open>Requests and responses\<close>

text \<open>
  \<open>body = None\<close> is a request whose \<^verbatim>\<open>req.body\<close> is undefined: no parser took its
  body, and the installed body-parser leaves the property unset then (version 2 does;
  version 1 sets an empty object, which is \<open>Some []\<close>). \<open>files = None\<close> is a request
  multer did not parse (it is not multipart), whose \<^verbatim>\<open>req.files\<close> is undefined.
\<close>

record request =
  body :: "(string \<times> jsval) list option"
  query :: "(string \<times> jsval) list"
  files :: "(string \<times> stored list) list option"

text \<open>
  What the client gets: a status with a JSON body; nothing, when a promise rejected in a
  query callback is never handled; Express's answer to an error the upload middleware
  passed on, in which case the handler was not run; or, when the handler itself throws
  outside its \<^verbatim>\<open>try\<close>, what Express makes of the rejected handler: its own 500 page in
  version 5, no answer in version 4. In no case is it one of the handler's JSON answers.
\<close>

datatype outcome = Reply nat jsval | Unanswered | Refused upload_error | Thrown string

definition error_json :: "string \<Rightarrow> jsval" where
  "error_json msg = JObj [(''error'', JStr msg)]"

section \<open>The handlers\<close>

text \<open>
  \<^verbatim>\<open>req.files['image'] ? req.files['image'][0].filename : null\<close>: \<open>Inl\<close> is the
  \<^verbatim>\<open>TypeError\<close> of reading \<^verbatim>\<open>filename\<close> of undefined.
\<close>

definition first_filename :: "(string \<times> stored list) list \<Rightarrow> string \<Rightarrow> string + jsval" where
  "first_filename fs k =
     (case map_of fs k of
        None \<Rightarrow> Inr JNull
      | Some [] \<Rightarrow> Inl ''TypeError''
      | Some (f # rest) \<Rightarrow> Inr (JStr (filename f)))"

text \<open>
  \<^verbatim>\<open>app.post('/register', ...)\<close>, the handler after the upload middleware. Its first
  line destructures \<^verbatim>\<open>req.body\<close> before the \<^verbatim>\<open>try\<close> begins, and throws a
  \<^verbatim>\<open>TypeError\<close> when \<^verbatim>\<open>req.body\<close> is undefined. Every throw between \<^verbatim>\<open>try\<close> and
  \<^verbatim>\<open>catch\<close> answers 500 \<^verbatim>\<open>Server error\<close>.
\<close>
definition register :: "lib \<Rightarrow> env \<Rightarrow> request \<Rightarrow> users_table \<Rightarrow> outcome \<times> users_table" where
  "register L E req t =
     (case body req of
        None \<Rightarrow> (Thrown ''TypeError'', t)
      | Some sent \<Rightarrow>
     (let fullname = field sent ''fullname'';
          email = field sent ''email'';
          password = field sent ''password'';
          age = field sent ''age'';
          gender = field sent ''gender''
      in
      if falsy fullname \<or> falsy email \<or> falsy password then
        (Reply 400 (error_json ''Full name, email, and password are required''), t)
      else
        case bcrypt_hash L E password 10 of
          Inl thrown \<Rightarrow> (Reply 500 (error_json ''Server error''), t)
        | Inr hashedPassword \<Rightarrow>
            (case files req of
               None \<Rightarrow> (Reply 500 (error_json ''Server error''), t)
             | Some fs \<Rightarrow>
                 (case first_filename fs ''image'' of
                    Inl thrown \<Rightarrow> (Reply 500 (error_json ''Server error''), t)
                  | Inr profileImage \<Rightarrow>
                      (case first_filename fs ''cv'' of
                         Inl thrown \<Rightarrow> (Reply 500 (error_json ''Server error''), t)
                       | Inr cvFile \<Rightarrow>
                           (case insert_user L E
                                   [fullname, email, JStr hashedPassword, age, gender,
                                    profileImage, cvFile] t of
                              (Inl code, t') \<Rightarrow>
                                if code = ''ER_DUP_ENTRY'' then
                                  (Reply 400 (error_json ''Email already registered''), t')
                                else (Reply 500 (error_json ''Database error''), t')
                            | (Inr insertId, t') \<Rightarrow>
                                (Reply 201
                                   (JObj [(''message'', JStr ''User registered successfully''),
                                          (''userId'', JNum (int insertId))]), t')))))))"

text \<open>
  \<^verbatim>\<open>app.post('/login', ...)\<close>. It destructures \<^verbatim>\<open>req.body\<close> before its \<^verbatim>\<open>try\<close>, as
  the register handler does. The query callback is an async function that nothing
  awaits: the \<^verbatim>\<open>try\<close> around \<^verbatim>\<open>db.query\<close> has ended when it runs, so a rejection of
  \<^verbatim>\<open>bcrypt.compare\<close> is not caught and no response is written.
\<close>

definition login :: "lib \<Rightarrow> env \<Rightarrow> request \<Rightarrow> users_table \<Rightarrow> outcome" where
  "login L E req t =
     (case body req of
        None \<Rightarrow> Thrown ''TypeError''
      | Some sent \<Rightarrow>
     (let email = field sent ''email'';
          password = field sent ''password''
      in
      if falsy email \<or> falsy password then
        Reply 400 (error_json ''Email and password are required'')
      else
        case select_by_email L E email t of
          Inl code \<Rightarrow> Reply 500 (error_json ''Database error'')
        | Inr [] \<Rightarrow> Reply 401 (error_json ''Invalid email or password'')
        | Inr (user # others) \<Rightarrow>
            (case bcrypt_compare L password (field user ''password'') of
               Inl thrown \<Rightarrow> Unanswered
             | Inr passwordMatch \<Rightarrow>
                 if \<not> passwordMatch then Reply 401 (error_json ''Invalid email or password'')
                 else
                   Reply 200
                     (JObj [(''message'', JStr ''Login successful''),
                            (''user'', JObj (without ''password'' user))]))))"

text \<open>\<^verbatim>\<open>app.get('/dashboard', ...)\<close>\<close>

definition dashboard :: "lib \<Rightarrow> env \<Rightarrow> request \<Rightarrow> users_table \<Rightarrow> outcome" where
  "dashboard L E req t =
     (let userId = field (query req) ''userId'' in
      if falsy userId then Reply 401 (error_json ''User ID required'')
      else
        case select_by_id L E userId t of
          Inl code \<Rightarrow> Reply 500 (error_json ''Database error'')
        | Inr [] \<Rightarrow> Reply 404 (error_json ''User not found'')
        | Inr (user # others) \<Rightarrow> Reply 200 (JObj [(''user'', JObj user)]))"

text \<open>
  The route \<^verbatim>\<open>POST /register\<close>: the upload middleware, then the handler. \<open>upload\<close> is
  the list of file parts of a multipart request, or \<open>None\<close> for a request that is not
  multipart, which multer passes on untouched. Of a multipart request multer makes
  \<^verbatim>\<open>req.body\<close> itself, an object with the text fields, so it is never undefined there.
\<close>

definition register_route ::
  "lib \<Rightarrow> env \<Rightarrow> (part \<times> nat \<times> nat) list option \<Rightarrow> request \<Rightarrow> users_table
     \<Rightarrow> outcome \<times> users_table" where
  "register_route L E upload req t =
     (case upload of
        None \<Rightarrow> register L E (req\<lparr>files := None\<rparr>) t
      | Some parts \<Rightarrow>
          (case multer L upload_fields parts [] of
             Inl e \<Rightarrow> (Refused e, t)
           | Inr fs \<Rightarrow>
               register L E
                 (req\<lparr>body := Some (case body req of None \<Rightarrow> [] | Some sent \<Rightarrow> sent),
                      files := Some fs\<rparr>) t))"

section \<open>The schema provisioner\<close>

text \<open>
  The columns of \<^verbatim>\<open>user_registration.users\<close> as the catalog lists them, and the two
  statements \<^verbatim>\<open>checkAndAddColumns\<close> sends: the count over
  \<^verbatim>\<open>information_schema.columns\<close> and \<^verbatim>\<open>ALTER TABLE users ADD COLUMN\<close>.
\<close>

datatype statement = CountColumn string | AddColumn string string

definition columnsToCheck :: "string list" where
  "columnsToCheck = [''profile_image'', ''cv_filename'']"

definition column_count :: "string list \<Rightarrow> string \<Rightarrow> nat" where
  "column_count cols c = length (filter (\<lambda>x. x = c) cols)"

text \<open>The server's answers; \<open>fails\<close> tells which statements it fails.\<close>

definition run_count :: "(statement \<Rightarrow> bool) \<Rightarrow> string list \<Rightarrow> string \<Rightarrow> string + nat" where
  "run_count fails cols c =
     (if fails (CountColumn c) then Inl ''error'' else Inr (column_count cols c))"

fun run_alter :: "(statement \<Rightarrow> bool) \<Rightarrow> string list \<Rightarrow> statement \<Rightarrow> string list" where
  "run_alter fails cols (AddColumn c ty) =
     (if fails (AddColumn c ty) \<or> c \<in> set cols then cols else cols @ [c])"
| "run_alter fails cols (CountColumn c) = cols"

text \<open>The callback of the count query for \<open>column\<close>: the statements it sends.\<close>

definition count_callback :: "string \<Rightarrow> string + nat \<Rightarrow> statement list" where
  "count_callback column res =
     (case res of
        Inl err \<Rightarrow> []
      | Inr count \<Rightarrow>
          if count = 0 then
            (let dataType = (if column = ''cv_filename'' then ''VARCHAR(255)'' else ''VARCHAR(255)'')
             in [AddColumn column dataType])
          else [])"

text \<open>
  \<^verbatim>\<open>checkAndAddColumns\<close>. The loop queues both count queries before any callback runs,
  so both counts are taken on the table as it was; the \<^verbatim>\<open>ALTER\<close> statements follow in
  the order of their callbacks. The result is the table's columns afterwards and the
  statements sent.
\<close>

definition checkAndAddColumns ::
  "(statement \<Rightarrow> bool) \<Rightarrow> string list \<Rightarrow> string list \<times> statement list" where
  "checkAndAddColumns fails cols =
     (let alters = concat (map (\<lambda>column. count_callback column (run_count fails cols column))
                             columnsToCheck)
      in (foldl (run_alter fails) cols alters, map CountColumn columnsToCheck @ alters))"

section \<open>A sample instance\<close>

text \<open>
  Stand-ins for the library functions, and a table with one registered user, on which
  the statements of the next section are evaluated. The stand-ins only fix the
  parameters: every general statement holds for any library.
\<close>

definition stand_in_digest :: "string \<Rightarrow> nat \<Rightarrow> string \<Rightarrow> string" where
  "stand_in_digest d rounds s = s @ ''$'' @ d"

definition stand_in_verify :: "string \<Rightarrow> string \<Rightarrow> bool" where
  "stand_in_verify d h = (drop (length h - Suc (length d)) h = CHR ''$'' # d)"

fun stand_in_equal :: "jsval \<Rightarrow> jsval \<Rightarrow> bool" where
  "stand_in_equal (JStr s) (JNum n) = (0 \<le> n \<and> s = decimal (nat n))"
| "stand_in_equal p v = (p = v)"

definition stand_in_extname :: "string \<Rightarrow> string" where
  "stand_in_extname name =
     (if CHR ''.'' \<in> set name then CHR ''.'' # rev (takeWhile (\<lambda>c. c \<noteq> CHR ''.'') (rev name))
      else [])"

definition sample_lib :: lib where
  "sample_lib =
     \<lparr>bcrypt_digest = stand_in_digest, bcrypt_verify = stand_in_verify,
      sql_equal = stand_in_equal, path_extname = stand_in_extname, aborts_at_limit = False\<rparr>"

definition sample_env :: env where
  "sample_env = \<lparr>salt = ''N9qo8uLOickgx2ZMRZoMye'', clock = 1700000000, store_fault = None\<rparr>"

definition ann :: row where
  "ann =
     [(''id'', JNum 1), (''fullname'', JStr ''Ann''), (''email'', JStr ''ann@example.org''),
      (''password'', JStr ''N9qo8uLOickgx2ZMRZoMye$s3cret''), (''age'', JNum 30),
      (''gender'', JStr ''female''), (''profile_image'', JNull), (''cv_filename'', JNull),
      (''reg_date'', JNum 1690000000)]"

definition sample_users :: users_table where
  "sample_users = \<lparr>rows = [ann], auto_increment = 2\<rparr>"

section \<open>Properties\<close>

subsection \<open>Values and rows\<close>

lemma falsy_missing: "map_of obj k = None \<Longrightarrow> falsy (field obj k)"
  by (simp add: field_def)

lemma truthy_bind: "\<not> falsy v \<Longrightarrow> sql_bind v = v \<and> v \<noteq> JNull"
  by (cases v) (simp_all add: sql_bind_def)

lemma field_new_row:
  "field (new_row E t [a, b, c, d, e, f, g]) ''fullname'' = sql_bind a"
  "field (new_row E t [a, b, c, d, e, f, g]) ''email'' = sql_bind b"
  "field (new_row E t [a, b, c, d, e, f, g]) ''password'' = sql_bind c"
  by (simp_all add: new_row_def insert_columns_def field_def)

lemma map_of_without_same: "map_of (without k obj) k = None"
  by (induction obj) (auto simp add: without_def)

lemma map_of_without_other: "k' \<noteq> k \<Longrightarrow> map_of (without k obj) k' = map_of obj k'"
  by (induction obj) (auto simp add: without_def)

lemma fst_project: "map fst (project cols r) = cols"
  by (induction cols) (simp_all add: project_def)

lemma field_project: "c \<in> set cols \<Longrightarrow> field (project cols r) c = field r c"
  by (induction cols) (auto simp add: project_def field_def)

subsection \<open>Registration\<close>

text \<open>
  A request whose three required fields are truthy, whose password is a string and whose
  \<^verbatim>\<open>req.files\<close> the upload middleware has filled reaches the insert; the answer is then
  the one of the query callback.
\<close>

lemma register_reaches_insert:
  assumes "body req = Some sent"
      and "\<not> falsy (field sent ''fullname'')"
      and "\<not> falsy (field sent ''email'')"
      and "field sent ''password'' = JStr pw" and "pw \<noteq> []"
      and "files req = Some fs"
      and "first_filename fs ''image'' = Inr profileImage"
      and "first_filename fs ''cv'' = Inr cvFile"
  shows "register L E req t =
      (case insert_user L E
              [field sent ''fullname'', field sent ''email'',
               JStr (bcrypt_digest L pw 10 (salt E)), field sent ''age'',
               field sent ''gender'', profileImage, cvFile] t of
         (Inl code, t') \<Rightarrow>
            if code = ''ER_DUP_ENTRY'' then (Reply 400 (error_json ''Email already registered''), t')
            else (Reply 500 (error_json ''Database error''), t')
       | (Inr insertId, t') \<Rightarrow>
            (Reply 201 (JObj [(''message'', JStr ''User registered successfully''),
                              (''userId'', JNum (int insertId))]), t'))"
  using assms by (simp add: register_def bcrypt_hash_def)

lemma insert_user_duplicate:
  assumes "\<not> falsy a" and "\<not> falsy b" and "store_fault E = None" and "email_taken L b t"
  shows "insert_user L E [a, b, JStr h, d, e, f, g] t = (Inl ''ER_DUP_ENTRY'', t)"
  using assms truthy_bind[OF assms(1)] truthy_bind[OF assms(2)]
  by (simp add: insert_user_def field_new_row not_null_columns_def Let_def sql_bind_def)

lemma insert_user_fresh:
  assumes "\<not> falsy a" and "\<not> falsy b" and "store_fault E = None" and "\<not> email_taken L b t"
  shows "insert_user L E [a, b, JStr h, d, e, f, g] t =
           (Inr (auto_increment t),
            t\<lparr>rows := rows t @ [new_row E t [a, b, JStr h, d, e, f, g]],
              auto_increment := Suc (auto_increment t)\<rparr>)"
  using assms truthy_bind[OF assms(1)] truthy_bind[OF assms(2)]
  by (simp add: insert_user_def field_new_row not_null_columns_def Let_def sql_bind_def)

text \<open>
  The success path: the row that is stored holds the bcrypt digest of the password at
  cost 10, not the password.
\<close>

lemma register_stores_digest:
  assumes "body req = Some sent"
      and "\<not> falsy (field sent ''fullname'')"
      and "\<not> falsy (field sent ''email'')"
      and "field sent ''password'' = JStr pw" and "pw \<noteq> []"
      and "files req = Some fs"
      and "first_filename fs ''image'' = Inr profileImage"
      and "first_filename fs ''cv'' = Inr cvFile"
      and "store_fault E = None"
      and "\<not> email_taken L (field sent ''email'') t"
      and "params = [field sent ''fullname'', field sent ''email'',
               JStr (bcrypt_digest L pw 10 (salt E)), field sent ''age'',
               field sent ''gender'', profileImage, cvFile]"
  shows "register L E req t =
           (Reply 201 (JObj [(''message'', JStr ''User registered successfully''),
                             (''userId'', JNum (int (auto_increment t)))]),
            t\<lparr>rows := rows t @ [new_row E t params],
              auto_increment := Suc (auto_increment t)\<rparr>)
         \<and> field (new_row E t params) ''password'' = JStr (bcrypt_digest L pw 10 (salt E))"
  using assms
  by (simp add: register_reaches_insert insert_user_fresh field_new_row sql_bind_def)

text \<open>
  \<^bold>\<open>C1\<close> (as amended). For a registration request whose fullname, email and password
  are truthy (so that \<^verbatim>\<open>req.body\<close> is an object), whose password is a string and whose \<^verbatim>\<open>req.files\<close> the upload middleware
  has filled: when the store finds the email equal to a stored record's and fails the
  query for no other reason, the insert fails with \<^verbatim>\<open>ER_DUP_ENTRY\<close>, the handler answers
  400 \<^verbatim>\<open>Email already registered\<close> and the table is unchanged; when the insert fails
  with any other error code, the handler answers 500 \<^verbatim>\<open>Database error\<close>.
\<close>

theorem register_duplicate_email:
  assumes "body req = Some sent"
      and "\<not> falsy (field sent ''fullname'')"
      and "\<not> falsy (field sent ''email'')"
      and "field sent ''password'' = JStr pw" and "pw \<noteq> []"
      and "files req = Some fs"
      and "first_filename fs ''image'' = Inr profileImage"
      and "first_filename fs ''cv'' = Inr cvFile"
      and "params = [field sent ''fullname'', field sent ''email'',
               JStr (bcrypt_digest L pw 10 (salt E)), field sent ''age'',
               field sent ''gender'', profileImage, cvFile]"
  shows "(store_fault E = None \<and> email_taken L (field sent ''email'') t \<longrightarrow>
            insert_user L E params t = (Inl ''ER_DUP_ENTRY'', t)
            \<and> register L E req t = (Reply 400 (error_json ''Email already registered''), t))
       \<and> (fst (insert_user L E params t) = Inl code \<and> code \<noteq> ''ER_DUP_ENTRY'' \<longrightarrow>
            fst (register L E req t) = Reply 500 (error_json ''Database error''))"
proof (intro conjI impI)
  note reg = register_reaches_insert[OF assms(1-8), of L E t, folded assms(9)]
  {
    assume a: "store_fault E = None \<and> email_taken L (field sent ''email'') t"
    then show dup: "insert_user L E params t = (Inl ''ER_DUP_ENTRY'', t)"
      unfolding assms(9) using assms(2,3) by (simp add: insert_user_duplicate)
    show "register L E req t = (Reply 400 (error_json ''Email already registered''), t)"
      using dup reg by simp
  }
  assume "fst (insert_user L E params t) = Inl code \<and> code \<noteq> ''ER_DUP_ENTRY''"
  then show "fst (register L E req t) = Reply 500 (error_json ''Database error'')"
    by (cases "insert_user L E params t") (simp add: reg)
qed

text \<open>
  The duplicate registration of the sample user, and the same request when the
  connection to the store is lost.
\<close>

theorem register_duplicate_email_witness:
  "register sample_lib sample_env
     \<lparr>body = Some [(''fullname'', JStr ''Ann B''), (''email'', JStr ''ann@example.org''),
                   (''password'', JStr ''hunter2'')],
      query = [], files = Some []\<rparr> sample_users
     = (Reply 400 (error_json ''Email already registered''), sample_users)
   \<and> fst (register sample_lib (sample_env\<lparr>store_fault := Some ''PROTOCOL_CONNECTION_LOST''\<rparr>)
     \<lparr>body = Some [(''fullname'', JStr ''Ann B''), (''email'', JStr ''ann@example.org''),
                   (''password'', JStr ''hunter2'')],
      query = [], files = Some []\<rparr> sample_users)
     = Reply 500 (error_json ''Database error'')"
proof -
  let ?sent = "[(''fullname'', JStr ''Ann B''), (''email'', JStr ''ann@example.org''),
                (''password'', JStr ''hunter2'')]"
  let ?req = "\<lparr>body = Some ?sent, query = [], files = Some []\<rparr>"
  let ?lost = "sample_env\<lparr>store_fault := Some ''PROTOCOL_CONNECTION_LOST''\<rparr>"
  have h0: "body ?req = Some ?sent" by simp
  have h1: "\<not> falsy (field ?sent ''fullname'')" by (simp add: field_def)
  have h2: "\<not> falsy (field ?sent ''email'')" by (simp add: field_def)
  have h3: "field ?sent ''password'' = JStr ''hunter2''" by (simp add: field_def)
  have h4: "''hunter2'' \<noteq> []" by simp
  have h5: "files ?req = Some []" by simp
  have h6: "first_filename [] ''image'' = Inr JNull" by (simp add: first_filename_def)
  have h7: "first_filename [] ''cv'' = Inr JNull" by (simp add: first_filename_def)
  have taken: "email_taken sample_lib (field ?sent ''email'') sample_users"
    by (simp add: email_taken_def sample_users_def sample_lib_def ann_def field_def)
  have ok: "store_fault sample_env = None" by (simp add: sample_env_def)
  have lost: "fst (insert_user sample_lib ?lost
       [field ?sent ''fullname'', field ?sent ''email'',
        JStr (bcrypt_digest sample_lib ''hunter2'' 10 (salt ?lost)), field ?sent ''age'',
        field ?sent ''gender'', JNull, JNull] sample_users) = Inl ''PROTOCOL_CONNECTION_LOST''
      \<and> ''PROTOCOL_CONNECTION_LOST'' \<noteq> ''ER_DUP_ENTRY''"
    by (simp add: insert_user_def)
  from register_duplicate_email[OF h0 h1 h2 h3 h4 h5 h6 h7 refl,
      of sample_env sample_lib sample_users] ok taken
  have a: "register sample_lib sample_env ?req sample_users
     = (Reply 400 (error_json ''Email already registered''), sample_users)" by blast
  from register_duplicate_email[OF h0 h1 h2 h3 h4 h5 h6 h7 refl, of ?lost sample_lib sample_users
       "''PROTOCOL_CONNECTION_LOST''"] lost
  have b: "fst (register sample_lib ?lost ?req sample_users)
     = Reply 500 (error_json ''Database error'')" by blast
  from a b show ?thesis by simp
qed

text \<open>
  Without the condition on the required fields the statement fails: a request with the
  email of a stored record and no password is answered by the validation, before any
  insert.
\<close>

theorem register_duplicate_email_counterexample:
  "email_taken sample_lib (JStr ''ann@example.org'') sample_users
   \<and> register sample_lib sample_env
        \<lparr>body = Some [(''fullname'', JStr ''Ann''), (''email'', JStr ''ann@example.org'')],
         query = [], files = Some []\<rparr> sample_users
       = (Reply 400 (error_json ''Full name, email, and password are required''), sample_users)
   \<and> error_json ''Full name, email, and password are required''
       \<noteq> error_json ''Email already registered''"
  by (simp add: email_taken_def sample_users_def sample_lib_def ann_def field_def register_def
        error_json_def)

text \<open>
  A request with a parsed body in which one of fullname, email and password is missing
  (or otherwise falsy) is answered 400 by the handler.
\<close>

lemma register_missing_field:
  assumes "body req = Some sent"
      and "k = ''fullname'' \<or> k = ''email'' \<or> k = ''password''"
      and "falsy (field sent k)"
  shows "register L E req t =
           (Reply 400 (error_json ''Full name, email, and password are required''), t)"
  using assms by (auto simp add: register_def)

text \<open>
  No request that lacks one of the three fields changes the table, with or without a
  body, whether the upload middleware refuses it or the handler runs.
\<close>

lemma register_missing_field_no_insert:
  assumes "k = ''fullname'' \<or> k = ''email'' \<or> k = ''password''"
      and "body req = None \<or> (\<exists>sent. body req = Some sent \<and> falsy (field sent k))"
  shows "snd (register L E req t) = t \<and> snd (register_route L E upload req t) = t"
proof -
  have handler: "snd (register L E r t) = t"
    if "body r = None \<or> (\<exists>sent. body r = Some sent \<and> falsy (field sent k))" for r
    using assms(1) that by (auto simp add: register_def)
  have empty: "falsy (field [] k)" by (simp add: field_def)
  show ?thesis
  proof (cases upload)
    case None
    then show ?thesis using assms(2) by (simp add: handler register_route_def)
  next
    case (Some parts)
    show ?thesis
    proof (cases "multer L upload_fields parts []")
      case (Inl e)
      then show ?thesis using Some assms(2) by (simp add: handler register_route_def)
    next
      case (Inr fs)
      have "snd (register L E
                   (req\<lparr>body := Some (case body req of None \<Rightarrow> [] | Some sent \<Rightarrow> sent),
                        files := Some fs\<rparr>) t) = t"
        using assms(2) empty by (intro handler) auto
      then show ?thesis using Some Inr assms(2) by (simp add: handler register_route_def)
    qed
  qed
qed

text \<open>
  \<^bold>\<open>C2\<close>. A registration request without a body lacks all three fields, and the
  handler does not answer it 400: where the body parser leaves \<^verbatim>\<open>req.body\<close> undefined,
  the destructuring of the handler's first line throws before the \<^verbatim>\<open>try\<close>, so neither
  the validation nor the \<^verbatim>\<open>catch\<close> is reached. The table is unchanged.
\<close>

theorem register_without_body:
  "register sample_lib sample_env \<lparr>body = None, query = [], files = None\<rparr> sample_users
     = (Thrown ''TypeError'', sample_users)
   \<and> register_route sample_lib sample_env None \<lparr>body = None, query = [], files = None\<rparr>
       sample_users
     = (Thrown ''TypeError'', sample_users)"
  by (simp add: register_def register_route_def)

subsection \<open>Login\<close>

text \<open>
  With both fields present, an unknown email and a password that bcrypt compares as
  different are answered alike.
\<close>

lemma login_unauthorised:
  assumes "body req = Some sent"
      and "\<not> falsy (field sent ''email'')" and "\<not> falsy (field sent ''password'')"
  shows "(select_by_email L E (field sent ''email'') t = Inr [] \<longrightarrow>
            login L E req t = Reply 401 (error_json ''Invalid email or password''))
       \<and> (select_by_email L E (field sent ''email'') t = Inr (user # others)
            \<and> bcrypt_compare L (field sent ''password'') (field user ''password'') = Inr False \<longrightarrow>
            login L E req t = Reply 401 (error_json ''Invalid email or password''))"
  using assms by (simp add: login_def)

text \<open>A failed lookup is answered 500, whether or not the email is registered.\<close>

lemma login_store_error:
  assumes "body req = Some sent"
      and "\<not> falsy (field sent ''email'')" and "\<not> falsy (field sent ''password'')"
      and "store_fault E = Some code"
  shows "login L E req t = Reply 500 (error_json ''Database error'')"
  using assms by (simp add: login_def select_by_email_def)

text \<open>
  A rejection of \<^verbatim>\<open>bcrypt.compare\<close> leaves the request without an answer. It rejects a
  password that is not a string, and only after the lookup has found the user.
\<close>

lemma login_compare_rejected:
  assumes "body req = Some sent"
      and "\<not> falsy (field sent ''email'')" and "\<not> falsy (field sent ''password'')"
      and "select_by_email L E (field sent ''email'') t = Inr (user # others)"
      and "bcrypt_compare L (field sent ''password'') (field user ''password'') = Inl thrown"
  shows "login L E req t = Unanswered"
  using assms by (simp add: login_def)

text \<open>
  \<^bold>\<open>C3\<close>. The two failures of a login are not always answered alike. For the body
  \<^verbatim>\<open>{"email": ..., "password": 12345}\<close> the handler answers 401 when the email is
  unknown and does not answer when the email is registered.
\<close>

theorem login_number_password:
  "login sample_lib sample_env
     \<lparr>body = Some [(''email'', JStr ''ann@example.org''), (''password'', JNum 12345)],
      query = [], files = None\<rparr> sample_users = Unanswered
   \<and> login sample_lib sample_env
     \<lparr>body = Some [(''email'', JStr ''bob@example.org''), (''password'', JNum 12345)],
      query = [], files = None\<rparr> sample_users
       = Reply 401 (error_json ''Invalid email or password'')"
  by (simp add: login_def field_def select_by_email_def sample_env_def sample_users_def
        sample_lib_def ann_def)

text \<open>A request without a body is not answered by the handler.\<close>

lemma login_without_body: "body req = None \<Longrightarrow> login L E req t = Thrown ''TypeError''"
  by (simp add: login_def)

text \<open>Only that path answers 200.\<close>

lemma login_200:
  assumes ok: "login L E req t = Reply 200 b"
  shows "\<exists>sent. body req = Some sent
           \<and> \<not> falsy (field sent ''email'') \<and> \<not> falsy (field sent ''password'')"
proof (cases "body req")
  case None
  with ok show ?thesis by (simp add: login_def)
next
  case (Some sent)
  with ok show ?thesis
    by (cases "falsy (field sent ''email'') \<or> falsy (field sent ''password'')")
       (simp_all add: login_def)
qed

lemma login_200_body:
  assumes ok: "login L E req t = Reply 200 b" and sent: "body req = Some sent"
  shows "\<exists>found others.
              select_by_email L E (field sent ''email'') t = Inr (found # others)
              \<and> bcrypt_compare L (field sent ''password'') (field found ''password'')
                  = Inr True
              \<and> b = JObj [(''message'', JStr ''Login successful''),
                           (''user'', JObj (without ''password'' found))]"
proof -
  from login_200[OF ok] sent
  have tr: "\<not> falsy (field sent ''email'') \<and> \<not> falsy (field sent ''password'')" by simp
  show ?thesis
  proof (cases "select_by_email L E (field sent ''email'') t")
    case (Inl code)
    with ok tr sent show ?thesis by (simp add: login_def)
  next
    case (Inr results)
    show ?thesis
    proof (cases results)
      case Nil
      with ok tr sent Inr show ?thesis by (simp add: login_def)
    next
      case (Cons user others)
      show ?thesis
      proof (cases "bcrypt_compare L (field sent ''password'') (field user ''password'')")
        case (Inl thrown)
        with ok tr sent Inr Cons show ?thesis by (simp add: login_def)
      next
        case (Inr passwordMatch)
        with ok tr sent \<open>select_by_email L E (field sent ''email'') t = Inr results\<close> Cons
        show ?thesis by (cases passwordMatch) (simp_all add: login_def)
      qed
    qed
  qed
qed

text \<open>
  \<^bold>\<open>C5\<close>. A login whose email is found and whose password is verified is answered
  200 with the first row found, a row of the table, from which the property
  \<^verbatim>\<open>password\<close> is removed and nothing else: every other property keeps its value and
  its place. No other login is answered 200.
\<close>

theorem login_success:
  "(body req = Some sent
      \<and> \<not> falsy (field sent ''email'') \<and> \<not> falsy (field sent ''password'')
      \<and> select_by_email L E (field sent ''email'') t = Inr (user # others)
      \<and> bcrypt_compare L (field sent ''password'') (field user ''password'') = Inr True \<longrightarrow>
    login L E req t =
      Reply 200 (JObj [(''message'', JStr ''Login successful''),
                       (''user'', JObj (without ''password'' user))])
    \<and> user \<in> set (rows t)
    \<and> map_of (without ''password'' user) ''password'' = None
    \<and> (\<forall>k. k \<noteq> ''password'' \<longrightarrow> map_of (without ''password'' user) k = map_of user k)
    \<and> without ''password'' user = filter (\<lambda>p. fst p \<noteq> ''password'') user)
   \<and> (login L E req t = Reply 200 b \<longrightarrow>
        (\<exists>given found others.
              body req = Some given
              \<and> \<not> falsy (field given ''email'') \<and> \<not> falsy (field given ''password'')
              \<and> select_by_email L E (field given ''email'') t = Inr (found # others)
              \<and> bcrypt_compare L (field given ''password'') (field found ''password'')
                  = Inr True
              \<and> b = JObj [(''message'', JStr ''Login successful''),
                           (''user'', JObj (without ''password'' found))]))"
proof (intro conjI impI)
  assume a: "body req = Some sent
      \<and> \<not> falsy (field sent ''email'') \<and> \<not> falsy (field sent ''password'')
      \<and> select_by_email L E (field sent ''email'') t = Inr (user # others)
      \<and> bcrypt_compare L (field sent ''password'') (field user ''password'') = Inr True"
  then have "user \<in> set (filter (\<lambda>r. sql_equal L (field sent ''email'') (field r ''email''))
                      (rows t))"
    by (cases "store_fault E") (auto simp add: select_by_email_def)
  then show "user \<in> set (rows t)" by simp
  from a show "login L E req t =
           Reply 200 (JObj [(''message'', JStr ''Login successful''),
                            (''user'', JObj (without ''password'' user))])"
    by (simp add: login_def)
  show "map_of (without ''password'' user) ''password'' = None"
    by (rule map_of_without_same)
  show "\<forall>k. k \<noteq> ''password'' \<longrightarrow> map_of (without ''password'' user) k = map_of user k"
    by (simp add: map_of_without_other)
  show "without ''password'' user = filter (\<lambda>p. fst p \<noteq> ''password'') user"
    by (simp add: without_def)
next
  assume ok: "login L E req t = Reply 200 b"
  from login_200[OF ok] obtain given where g: "body req = Some given"
    and tr: "\<not> falsy (field given ''email'')" "\<not> falsy (field given ''password'')" by blast
  from login_200_body[OF ok g] g tr
  show "\<exists>given found others.
              body req = Some given
              \<and> \<not> falsy (field given ''email'') \<and> \<not> falsy (field given ''password'')
              \<and> select_by_email L E (field given ''email'') t = Inr (found # others)
              \<and> bcrypt_compare L (field given ''password'') (field found ''password'')
                  = Inr True
              \<and> b = JObj [(''message'', JStr ''Login successful''),
                           (''user'', JObj (without ''password'' found))]"
    by blast
qed

theorem login_success_witness:
  "login sample_lib sample_env
     \<lparr>body = Some [(''email'', JStr ''ann@example.org''), (''password'', JStr ''s3cret'')],
      query = [], files = None\<rparr> sample_users
     = Reply 200
         (JObj [(''message'', JStr ''Login successful''),
                (''user'',
                 JObj [(''id'', JNum 1), (''fullname'', JStr ''Ann''),
                       (''email'', JStr ''ann@example.org''), (''age'', JNum 30),
                       (''gender'', JStr ''female''), (''profile_image'', JNull),
                       (''cv_filename'', JNull), (''reg_date'', JNum 1690000000)])])"
proof -
  let ?sent = "[(''email'', JStr ''ann@example.org''), (''password'', JStr ''s3cret'')]"
  let ?req = "\<lparr>body = Some ?sent, query = [], files = None\<rparr>"
  have h0: "body ?req = Some ?sent" by simp
  have h1: "\<not> falsy (field ?sent ''email'')" by (simp add: field_def)
  have h2: "\<not> falsy (field ?sent ''password'')" by (simp add: field_def)
  have h3: "select_by_email sample_lib sample_env (field ?sent ''email'') sample_users
              = Inr (ann # [])"
    by (simp add: select_by_email_def sample_env_def sample_users_def sample_lib_def ann_def
          field_def)
  have h4: "bcrypt_compare sample_lib (field ?sent ''password'') (field ann ''password'')
              = Inr True"
    by (simp add: field_def ann_def sample_lib_def stand_in_verify_def)
  have "without ''password'' ann =
          [(''id'', JNum 1), (''fullname'', JStr ''Ann''),
           (''email'', JStr ''ann@example.org''), (''age'', JNum 30),
           (''gender'', JStr ''female''), (''profile_image'', JNull),
           (''cv_filename'', JNull), (''reg_date'', JNum 1690000000)]"
    by (simp add: without_def ann_def)
  then have "Reply 200 (JObj [(''message'', JStr ''Login successful''),
                              (''user'', JObj (without ''password'' ann))]) =
        Reply 200
         (JObj [(''message'', JStr ''Login successful''),
                (''user'',
                 JObj [(''id'', JNum 1), (''fullname'', JStr ''Ann''),
                       (''email'', JStr ''ann@example.org''), (''age'', JNum 30),
                       (''gender'', JStr ''female''), (''profile_image'', JNull),
                       (''cv_filename'', JNull), (''reg_date'', JNum 1690000000)])])"
    by simp
  moreover from login_success[of ?req ?sent sample_lib sample_env sample_users ann "[]"]
    h0 h1 h2 h3 h4
  have "login sample_lib sample_env ?req sample_users =
          Reply 200 (JObj [(''message'', JStr ''Login successful''),
                           (''user'', JObj (without ''password'' ann))])"
    by blast
  ultimately show ?thesis by (simp only:)
qed

subsection \<open>Dashboard\<close>

text \<open>
  \<^bold>\<open>C6\<close> (as amended). A dashboard request without a truthy \<^verbatim>\<open>userId\<close> is answered
  401. Otherwise, when the store fails the lookup the answer is 500
  \<^verbatim>\<open>Database error\<close>; when the lookup finds no record with that id it is 404; and when it
  finds one it is 200 with the projection of the first record found on id, fullname,
  email, age, gender, profile_image, cv_filename and reg_date, which has no password.
\<close>

theorem dashboard_cases:
  "(falsy (field (query req) ''userId'') \<longrightarrow>
      dashboard L E req t = Reply 401 (error_json ''User ID required''))
   \<and> (\<not> falsy (field (query req) ''userId'') \<and> store_fault E = Some code \<longrightarrow>
      dashboard L E req t = Reply 500 (error_json ''Database error''))
   \<and> (\<not> falsy (field (query req) ''userId'') \<and> store_fault E = None
       \<and> filter (\<lambda>r. sql_equal L (field (query req) ''userId'') (field r ''id'')) (rows t) = [] \<longrightarrow>
      dashboard L E req t = Reply 404 (error_json ''User not found''))
   \<and> (\<not> falsy (field (query req) ''userId'') \<and> store_fault E = None
       \<and> filter (\<lambda>r. sql_equal L (field (query req) ''userId'') (field r ''id'')) (rows t) = r # rs \<longrightarrow>
      dashboard L E req t = Reply 200 (JObj [(''user'', JObj (project dashboard_columns r))])
      \<and> map fst (project dashboard_columns r) =
          [''id'', ''fullname'', ''email'', ''age'', ''gender'', ''profile_image'',
           ''cv_filename'', ''reg_date'']
      \<and> ''password'' \<notin> set (map fst (project dashboard_columns r))
      \<and> (\<forall>c \<in> set dashboard_columns. field (project dashboard_columns r) c = field r c))"
proof (intro conjI impI)
  show "\<forall>c \<in> set dashboard_columns. field (project dashboard_columns r) c = field r c"
    by (simp add: field_project)
  show "map fst (project dashboard_columns r) =
          [''id'', ''fullname'', ''email'', ''age'', ''gender'', ''profile_image'',
           ''cv_filename'', ''reg_date'']"
    by (simp add: fst_project) (simp add: dashboard_columns_def)
  show "''password'' \<notin> set (map fst (project dashboard_columns r))"
    by (simp only: fst_project) (simp add: dashboard_columns_def)
qed (simp_all add: dashboard_def select_by_id_def)

theorem dashboard_cases_witness:
  "dashboard sample_lib sample_env \<lparr>body = None, query = [], files = None\<rparr> sample_users
     = Reply 401 (error_json ''User ID required'')
   \<and> dashboard sample_lib (sample_env\<lparr>store_fault := Some ''PROTOCOL_CONNECTION_LOST''\<rparr>)
        \<lparr>body = None, query = [(''userId'', JStr ''1'')], files = None\<rparr> sample_users
     = Reply 500 (error_json ''Database error'')
   \<and> dashboard sample_lib sample_env
        \<lparr>body = None, query = [(''userId'', JStr ''7'')], files = None\<rparr> sample_users
     = Reply 404 (error_json ''User not found'')
   \<and> dashboard sample_lib sample_env
        \<lparr>body = None, query = [(''userId'', JStr ''1'')], files = None\<rparr> sample_users
     = Reply 200
         (JObj [(''user'',
                 JObj [(''id'', JNum 1), (''fullname'', JStr ''Ann''),
                       (''email'', JStr ''ann@example.org''), (''age'', JNum 30),
                       (''gender'', JStr ''female''), (''profile_image'', JNull),
                       (''cv_filename'', JNull), (''reg_date'', JNum 1690000000)])])"
proof -
  let ?none = "\<lparr>body = None, query = [], files = None\<rparr>"
  let ?one = "\<lparr>body = None, query = [(''userId'', JStr ''1'')], files = None\<rparr>"
  let ?seven = "\<lparr>body = None, query = [(''userId'', JStr ''7'')], files = None\<rparr>"
  let ?lost = "sample_env\<lparr>store_fault := Some ''PROTOCOL_CONNECTION_LOST''\<rparr>"
  have ok: "store_fault sample_env = None" by (simp add: sample_env_def)
  have a: "falsy (field (query ?none) ''userId'')" by (simp add: field_def)
  have b: "\<not> falsy (field (query ?one) ''userId'')
           \<and> store_fault ?lost = Some ''PROTOCOL_CONNECTION_LOST''"
    by (simp add: field_def)
  have c: "\<not> falsy (field (query ?seven) ''userId'')
     \<and> filter (\<lambda>r. sql_equal sample_lib (field (query ?seven) ''userId'') (field r ''id''))
         (rows sample_users) = []"
    by (simp add: field_def sample_lib_def sample_users_def ann_def decimal.simps digit_def)
  have d: "\<not> falsy (field (query ?one) ''userId'')
     \<and> filter (\<lambda>r. sql_equal sample_lib (field (query ?one) ''userId'') (field r ''id''))
         (rows sample_users) = ann # []"
    by (simp add: field_def sample_lib_def sample_users_def ann_def decimal.simps digit_def)
  have p: "project dashboard_columns ann =
             [(''id'', JNum 1), (''fullname'', JStr ''Ann''),
              (''email'', JStr ''ann@example.org''), (''age'', JNum 30),
              (''gender'', JStr ''female''), (''profile_image'', JNull),
              (''cv_filename'', JNull), (''reg_date'', JNum 1690000000)]"
    by (simp add: project_def dashboard_columns_def ann_def field_def)
  from dashboard_cases[of ?none sample_lib sample_env sample_users] a
  have r1: "dashboard sample_lib sample_env ?none sample_users
              = Reply 401 (error_json ''User ID required'')" by blast
  from dashboard_cases[of ?one sample_lib ?lost sample_users "''PROTOCOL_CONNECTION_LOST''"] b
  have r2: "dashboard sample_lib ?lost ?one sample_users
              = Reply 500 (error_json ''Database error'')" by blast
  from dashboard_cases[of ?seven sample_lib sample_env sample_users] c ok
  have r3: "dashboard sample_lib sample_env ?seven sample_users
              = Reply 404 (error_json ''User not found'')" by blast
  from dashboard_cases[of ?one sample_lib sample_env sample_users _ ann "[]"] d ok
  have r4: "dashboard sample_lib sample_env ?one sample_users
              = Reply 200 (JObj [(''user'', JObj (project dashboard_columns ann))])" by blast
  from r1 r2 r3 r4 p show ?thesis by simp
qed

text \<open>
  Without the case of a failed lookup the statement fails: with an empty table and a lost
  connection, a request for id 7 is answered 500, not 404.
\<close>

theorem dashboard_store_error_counterexample:
  "\<not> falsy (JStr ''7'')
   \<and> dashboard sample_lib (sample_env\<lparr>store_fault := Some ''PROTOCOL_CONNECTION_LOST''\<rparr>)
        \<lparr>body = None, query = [(''userId'', JStr ''7'')], files = None\<rparr>
        \<lparr>rows = [], auto_increment = 1\<rparr>
       = Reply 500 (error_json ''Database error'')
   \<and> Reply 500 (error_json ''Database error'') \<noteq> Reply 404 (error_json ''User not found'')"
  by (simp add: dashboard_def select_by_id_def field_def)

subsection \<open>Uploads\<close>

lemma fileFilter_iff:
  "fileFilter file = Inr True \<longleftrightarrow>
     (fieldname file = ''image'' \<and> startsWith (mimetype file) ''image/'')
     \<or> (fieldname file = ''cv'' \<and> mimetype file = ''application/pdf'')"
  by (simp add: fileFilter_def)

lemma fileFilter_rejects: "fileFilter file \<noteq> Inr True \<Longrightarrow> fileFilter file = Inl ''Invalid file type''"
  by (simp add: fileFilter_def split: if_splits)

lemma admit_rejected: "fileFilter file \<noteq> Inr True \<Longrightarrow> \<exists>e. admit left file = Inl e"
  by (auto simp add: admit_def dest!: fileFilter_rejects split: option.splits)

lemma admit_accepted: "admit left file = Inr ok \<Longrightarrow> fileFilter file = Inr True \<and> ok"
  by (auto simp add: admit_def fileFilter_def split: option.splits if_splits sum.splits)

text \<open>
  A request with a part the filter refuses, or with a part longer than the limit, is
  aborted by the upload middleware, wherever the part stands among the others.
\<close>

lemma multer_rejects:
  assumes "(file, now, rnd) \<in> set parts"
      and "fileFilter file \<noteq> Inr True \<or> over_limit L (filesize file)"
  shows "\<exists>e. multer L left parts fs = Inl e"
  using assms
proof (induction parts arbitrary: left fs)
  case Nil
  then show ?case by simp
next
  case (Cons p parts)
  obtain f n r where p: "p = (f, n, r)" by (cases p)
  show ?case
  proof (cases "admit left f")
    case (Inl e)
    then show ?thesis by (simp add: p)
  next
    case (Inr ok)
    then have ok: "fileFilter f = Inr True" "ok" using admit_accepted by blast+
    show ?thesis
    proof (cases "over_limit L (filesize f)")
      case True
      then show ?thesis using Inr ok by (simp add: p)
    next
      case False
      then have "(file, now, rnd) \<in> set parts" using Cons.prems ok p by auto
      then have "\<And>left fs. \<exists>e. multer L left parts fs = Inl e"
        using Cons.IH Cons.prems(2) by blast
      then show ?thesis using Inr ok False by (simp add: p Let_def)
    qed
  qed
qed

text \<open>
  \<^bold>\<open>C7\<close>. The filter accepts a part exactly when its field is \<^verbatim>\<open>image\<close> and its MIME
  type starts with \<^verbatim>\<open>image/\<close>, or its field is \<^verbatim>\<open>cv\<close> and its MIME type is
  \<^verbatim>\<open>application/pdf\<close>. Any other part is refused with the error
  \<^verbatim>\<open>Invalid file type\<close>, and a request that carries one is refused before the handler
  runs.
\<close>

theorem fileFilter_accepts:
  "(fileFilter file = Inr True \<longleftrightarrow>
      (fieldname file = ''image'' \<and> startsWith (mimetype file) ''image/'')
      \<or> (fieldname file = ''cv'' \<and> mimetype file = ''application/pdf''))
   \<and> (fileFilter file \<noteq> Inr True \<longrightarrow>
        fileFilter file = Inl ''Invalid file type'' \<and> (\<exists>e. admit left file = Inl e))
   \<and> (fileFilter file \<noteq> Inr True \<and> (file, now, rnd) \<in> set parts \<longrightarrow>
        (\<exists>e. register_route L E (Some parts) req t = (Refused e, t)))"
proof (intro conjI impI)
  show "fileFilter file = Inr True \<longleftrightarrow>
      (fieldname file = ''image'' \<and> startsWith (mimetype file) ''image/'')
      \<or> (fieldname file = ''cv'' \<and> mimetype file = ''application/pdf'')"
    by (rule fileFilter_iff)
next
  assume "fileFilter file \<noteq> Inr True"
  then show "fileFilter file = Inl ''Invalid file type''" by (rule fileFilter_rejects)
next
  assume "fileFilter file \<noteq> Inr True"
  then show "\<exists>e. admit left file = Inl e" by (rule admit_rejected)
next
  assume "fileFilter file \<noteq> Inr True \<and> (file, now, rnd) \<in> set parts"
  then obtain e where "multer L upload_fields parts [] = Inl e"
    using multer_rejects by blast
  then show "\<exists>e. register_route L E (Some parts) req t = (Refused e, t)"
    by (simp add: register_route_def)
qed

theorem fileFilter_accepts_witness:
  "fileFilter \<lparr>fieldname = ''image'', originalname = ''me.png'', mimetype = ''image/png'',
               filesize = 2048\<rparr> = Inr True
   \<and> fileFilter \<lparr>fieldname = ''cv'', originalname = ''cv.txt'', mimetype = ''text/plain'',
               filesize = 100\<rparr> = Inl ''Invalid file type''
   \<and> (\<exists>e. register_route sample_lib sample_env
          (Some [(\<lparr>fieldname = ''cv'', originalname = ''cv.txt'', mimetype = ''text/plain'',
                   filesize = 100\<rparr>, 1700000000000, 42)])
          \<lparr>body = Some [], query = [], files = None\<rparr> sample_users = (Refused e, sample_users))"
proof -
  let ?png = "\<lparr>fieldname = ''image'', originalname = ''me.png'', mimetype = ''image/png'',
               filesize = 2048\<rparr>"
  let ?txt = "\<lparr>fieldname = ''cv'', originalname = ''cv.txt'', mimetype = ''text/plain'',
               filesize = 100\<rparr>"
  have a: "(fieldname ?png = ''image'' \<and> startsWith (mimetype ?png) ''image/'')
           \<or> (fieldname ?png = ''cv'' \<and> mimetype ?png = ''application/pdf'')"
    by (simp add: startsWith_def)
  have b: "\<not> ((fieldname ?txt = ''image'' \<and> startsWith (mimetype ?txt) ''image/'')
           \<or> (fieldname ?txt = ''cv'' \<and> mimetype ?txt = ''application/pdf''))"
    by simp
  have c: "(?txt, 1700000000000, 42) \<in> set [(?txt, 1700000000000::nat, 42::nat)]" by simp
  from fileFilter_accepts[of ?png] a have r1: "fileFilter ?png = Inr True" by blast
  note w = fileFilter_accepts[of ?txt upload_fields 1700000000000 42
      "[(?txt, 1700000000000, 42)]" sample_lib sample_env "\<lparr>body = Some [], query = [], files = None\<rparr>"
      sample_users]
  from w b have no: "fileFilter ?txt \<noteq> Inr True" by blast
  with w have r2: "fileFilter ?txt = Inl ''Invalid file type''" by blast
  from w no c have r3: "\<exists>e. register_route sample_lib sample_env
          (Some [(?txt, 1700000000000, 42)])
          \<lparr>body = Some [], query = [], files = None\<rparr> sample_users = (Refused e, sample_users)"
    by blast
  from r1 r2 r3 show ?thesis by blast
qed

text \<open>
  \<^bold>\<open>C8\<close>. The limit is 10 MiB, 10485760 bytes. A request with a file part of more
  bytes is refused, whatever the field of the part; a part the filter accepts is refused
  with \<^verbatim>\<open>LIMIT_FILE_SIZE\<close>.
\<close>

theorem upload_size_limit:
  "upload_fileSize = 10485760
   \<and> (10 * 1024 * 1024 < filesize file \<and> (file, now, rnd) \<in> set parts \<longrightarrow>
        (\<exists>e. multer L left parts fs = Inl e)
        \<and> (\<exists>e. register_route L E (Some parts) req t = (Refused e, t)))
   \<and> (10 * 1024 * 1024 < filesize file \<and> admit left file = Inr True \<longrightarrow>
        multer L left ((file, now, rnd) # queue) fs = Inl LIMIT_FILE_SIZE)"
proof (intro conjI impI)
  show "upload_fileSize = 10485760" by (simp add: upload_fileSize_def)
next
  assume a: "10 * 1024 * 1024 < filesize file \<and> (file, now, rnd) \<in> set parts"
  then have big: "over_limit L (filesize file)" by (simp add: over_limit_def upload_fileSize_def)
  with a show "\<exists>e. multer L left parts fs = Inl e" using multer_rejects by blast
  from a big obtain e where "multer L upload_fields parts [] = Inl e"
    using multer_rejects by blast
  then show "\<exists>e. register_route L E (Some parts) req t = (Refused e, t)"
    by (simp add: register_route_def)
next
  assume "10 * 1024 * 1024 < filesize file \<and> admit left file = Inr True"
  then show "multer L left ((file, now, rnd) # queue) fs = Inl LIMIT_FILE_SIZE"
    by (simp add: over_limit_def upload_fileSize_def)
qed

theorem upload_size_limit_witness:
  "multer sample_lib upload_fields
     [(\<lparr>fieldname = ''image'', originalname = ''me.png'', mimetype = ''image/png'',
        filesize = 10485761\<rparr>, 1700000000000, 42)] [] = Inl LIMIT_FILE_SIZE
   \<and> (\<exists>e. register_route sample_lib sample_env
          (Some [(\<lparr>fieldname = ''cv'', originalname = ''cv.pdf'', mimetype = ''application/pdf'',
                   filesize = 10485761\<rparr>, 1700000000000, 42)])
          \<lparr>body = Some [], query = [], files = None\<rparr> sample_users = (Refused e, sample_users))"
proof -
  let ?png = "\<lparr>fieldname = ''image'', originalname = ''me.png'', mimetype = ''image/png'',
        filesize = 10485761\<rparr>"
  let ?pdf = "\<lparr>fieldname = ''cv'', originalname = ''cv.pdf'', mimetype = ''application/pdf'',
                   filesize = 10485761\<rparr>"
  have a: "10 * 1024 * 1024 < filesize ?png \<and> admit upload_fields ?png = Inr True"
    by (simp add: admit_def upload_fields_def fileFilter_def startsWith_def)
  have b: "10 * 1024 * 1024 < filesize ?pdf
           \<and> (?pdf, 1700000000000, 42) \<in> set [(?pdf, 1700000000000::nat, 42::nat)]"
    by simp
  from upload_size_limit[of ?png 1700000000000 42 _ sample_lib upload_fields "[]" _ _ _ "[]"] a
  have r1: "multer sample_lib upload_fields [(?png, 1700000000000, 42)] [] = Inl LIMIT_FILE_SIZE"
    by blast
  from upload_size_limit[of ?pdf 1700000000000 42 "[(?pdf, 1700000000000, 42)]" sample_lib _ _
      sample_env "\<lparr>body = Some [], query = [], files = None\<rparr>" sample_users] b
  have r2: "\<exists>e. register_route sample_lib sample_env (Some [(?pdf, 1700000000000, 42)])
          \<lparr>body = Some [], query = [], files = None\<rparr> sample_users = (Refused e, sample_users)"
    by blast
  from r1 r2 show ?thesis by blast
qed

text \<open>
  What the upload middleware leaves in \<^verbatim>\<open>req.files\<close> are parts the filter accepted,
  under the names the storage engine gave them.
\<close>

lemma files_append_file:
  "\<Union>(set ` snd ` set (append_file fs f)) = insert f (\<Union>(set ` snd ` set fs))"
proof (cases "map_of fs (fieldname f)")
  case None
  then show ?thesis by (simp add: append_file_def)
next
  case (Some arr)
  then have "(fieldname f, arr) \<in> set fs" by (rule map_of_SomeD)
  then show ?thesis using Some by (force simp add: append_file_def)
qed

lemma multer_invariant:
  assumes "multer L left parts fs = Inr fs'"
      and "\<And>f. f \<in> \<Union>(set ` snd ` set fs) \<Longrightarrow> P f"
      and "\<And>file now rnd. fileFilter file = Inr True \<Longrightarrow>
             P \<lparr>fieldname = fieldname file, originalname = originalname file,
                mimetype = mimetype file, filesize = filesize file,
                filename = storage_filename L now rnd file\<rparr>"
      and "f \<in> \<Union>(set ` snd ` set fs')"
  shows "P f"
  using assms(1,2,4)
proof (induction parts arbitrary: left fs)
  case Nil
  then show ?case by simp
next
  case (Cons p parts)
  obtain x now rnd where p: "p = (x, now, rnd)" by (cases p)
  show ?case
  proof (cases "admit left x")
    case (Inl e)
    with Cons.prems(1) show ?thesis by (simp add: p)
  next
    case (Inr ok)
    then have ok: "fileFilter x = Inr True" "ok" using admit_accepted by blast+
    let ?s = "\<lparr>fieldname = fieldname x, originalname = originalname x,
                mimetype = mimetype x, filesize = filesize x,
                filename = storage_filename L now rnd x\<rparr>"
    from Cons.prems(1) Inr ok
    have run: "multer L (expect_one_less (fieldname x) left) parts (append_file fs ?s) = Inr fs'"
      by (simp add: p Let_def split: if_splits)
    have "P g" if "g \<in> \<Union>(set ` snd ` set (append_file fs ?s))" for g
    proof -
      from that have "g = ?s \<or> g \<in> \<Union>(set ` snd ` set fs)"
        by (simp only: files_append_file insert_iff)
      then show ?thesis using Cons.prems(2) assms(3)[OF ok(1)] by blast
    qed
    from Cons.IH[OF run this Cons.prems(3)] show ?thesis .
  qed
qed

text \<open>
  \<^bold>\<open>C10\<close>. A part that reaches \<^verbatim>\<open>storage.filename\<close> has passed the filter, so its
  field is \<^verbatim>\<open>image\<close> or \<^verbatim>\<open>cv\<close> and its name is made by the first or the second
  branch: the third branch is never taken. Hence every file the middleware hands to the
  handler is named \<^verbatim>\<open>profile-...\<close> under \<^verbatim>\<open>image\<close> and \<^verbatim>\<open>cv-...\<close> under \<^verbatim>\<open>cv\<close>.
\<close>

theorem storage_fallback_unreachable:
  "(admit left file = Inr True \<longrightarrow>
     (fieldname file = ''image''
        \<and> storage_filename L now rnd file =
            ''profile-'' @ decimal now @ ''-'' @ decimal rnd @ path_extname L (originalname file))
     \<or> (fieldname file = ''cv''
        \<and> storage_filename L now rnd file =
            ''cv-'' @ decimal now @ ''-'' @ decimal rnd @ path_extname L (originalname file)))
   \<and> (multer L left parts [] = Inr fs \<and> (k, arr) \<in> set fs \<and> f \<in> set arr \<longrightarrow>
        (fieldname f = ''image'' \<and> take 8 (filename f) = ''profile-'')
        \<or> (fieldname f = ''cv'' \<and> take 3 (filename f) = ''cv-''))"
proof (intro conjI impI)
  assume "admit left file = Inr True"
  then have "fileFilter file = Inr True" using admit_accepted by blast
  then have "fieldname file = ''image'' \<or> fieldname file = ''cv''"
    by (auto simp add: fileFilter_iff)
  then show "(fieldname file = ''image''
        \<and> storage_filename L now rnd file =
            ''profile-'' @ decimal now @ ''-'' @ decimal rnd @ path_extname L (originalname file))
     \<or> (fieldname file = ''cv''
        \<and> storage_filename L now rnd file =
            ''cv-'' @ decimal now @ ''-'' @ decimal rnd @ path_extname L (originalname file))"
    by (auto simp add: storage_filename_def)
next
  assume a: "multer L left parts [] = Inr fs \<and> (k, arr) \<in> set fs \<and> f \<in> set arr"
  let ?P = "\<lambda>f. (fieldname f = ''image'' \<and> take 8 (filename f) = ''profile-'')
        \<or> (fieldname f = ''cv'' \<and> take 3 (filename f) = ''cv-'')"
  from a have run: "multer L left parts [] = Inr fs" and f: "f \<in> \<Union>(set ` snd ` set fs)"
    by force+
  show "?P f"
  proof (rule multer_invariant[where P = ?P, OF run _ _ f])
    fix g :: stored
    assume "g \<in> \<Union>(set ` snd ` set [])"
    then show "?P g" by simp
  next
    fix x now rnd
    assume "fileFilter x = Inr True"
    then have "fieldname x = ''image'' \<or> fieldname x = ''cv''"
      by (auto simp add: fileFilter_iff)
    then show "?P \<lparr>fieldname = fieldname x, originalname = originalname x,
                mimetype = mimetype x, filesize = filesize x,
                filename = storage_filename L now rnd x\<rparr>"
      by (auto simp add: storage_filename_def)
  qed
qed

theorem storage_fallback_unreachable_witness:
  "admit upload_fields
     \<lparr>fieldname = ''cv'', originalname = ''ann.cv.pdf'', mimetype = ''application/pdf'',
      filesize = 2048\<rparr> = Inr True
   \<and> storage_filename sample_lib 1700000000000 42
     \<lparr>fieldname = ''cv'', originalname = ''ann.cv.pdf'', mimetype = ''application/pdf'',
      filesize = 2048\<rparr> = ''cv-1700000000000-42.pdf''
   \<and> multer sample_lib upload_fields
     [(\<lparr>fieldname = ''cv'', originalname = ''ann.cv.pdf'', mimetype = ''application/pdf'',
        filesize = 2048\<rparr>, 1700000000000, 42)] []
     = Inr [(''cv'',
             [\<lparr>fieldname = ''cv'', originalname = ''ann.cv.pdf'',
               mimetype = ''application/pdf'', filesize = 2048,
               filename = ''cv-1700000000000-42.pdf''\<rparr>])]
   \<and> take 3 ''cv-1700000000000-42.pdf'' = ''cv-''"
proof -
  let ?pdf = "\<lparr>fieldname = ''cv'', originalname = ''ann.cv.pdf'', mimetype = ''application/pdf'',
      filesize = 2048\<rparr>"
  let ?kept = "\<lparr>fieldname = ''cv'', originalname = ''ann.cv.pdf'',
               mimetype = ''application/pdf'', filesize = 2048,
               filename = ''cv-1700000000000-42.pdf''\<rparr>"
  have a: "admit upload_fields ?pdf = Inr True"
    by (simp add: admit_def upload_fields_def fileFilter_def)
  have d: "decimal 1700000000000 = ''1700000000000''" "decimal 42 = ''42''"
    by (simp_all add: decimal.simps digit_def)
  have e: "path_extname sample_lib (originalname ?pdf) = ''.pdf''"
    by (simp add: sample_lib_def stand_in_extname_def)
  from storage_fallback_unreachable[of upload_fields ?pdf sample_lib 1700000000000 42] a
  have "(fieldname ?pdf = ''image''
        \<and> storage_filename sample_lib 1700000000000 42 ?pdf =
            ''profile-'' @ decimal 1700000000000 @ ''-'' @ decimal 42
              @ path_extname sample_lib (originalname ?pdf))
     \<or> (fieldname ?pdf = ''cv''
        \<and> storage_filename sample_lib 1700000000000 42 ?pdf =
            ''cv-'' @ decimal 1700000000000 @ ''-'' @ decimal 42
              @ path_extname sample_lib (originalname ?pdf))"
    by blast
  then have name: "storage_filename sample_lib 1700000000000 42 ?pdf = ''cv-1700000000000-42.pdf''"
    using d e by simp
  have small: "\<not> over_limit sample_lib (filesize ?pdf)"
    by (simp add: over_limit_def upload_fileSize_def sample_lib_def)
  have run: "multer sample_lib upload_fields [(?pdf, 1700000000000, 42)] [] = Inr [(''cv'', [?kept])]"
    using a name small by (simp add: append_file_def)
  have "(''cv'', [?kept]) \<in> set [(''cv'', [?kept])] \<and> ?kept \<in> set [?kept]" by simp
  with storage_fallback_unreachable[of upload_fields _ sample_lib _ _
      "[(?pdf, 1700000000000, 42)]" "[(''cv'', [?kept])]" "''cv''" "[?kept]" ?kept] run
  have "(fieldname ?kept = ''image'' \<and> take 8 (filename ?kept) = ''profile-'')
        \<or> (fieldname ?kept = ''cv'' \<and> take 3 (filename ?kept) = ''cv-'')"
    by blast
  then have "take 3 ''cv-1700000000000-42.pdf'' = ''cv-''" by simp
  with a name run show ?thesis by (simp only: simp_thms)
qed

subsection \<open>The schema provisioner\<close>

lemma column_count_eq_0_iff: "column_count cols c = 0 \<longleftrightarrow> c \<notin> set cols"
  by (induction cols) (auto simp add: column_count_def)

lemma count_callback_present:
  "c \<in> set cols \<Longrightarrow> count_callback c (run_count fails cols c) = []"
  by (simp add: count_callback_def run_count_def column_count_eq_0_iff)

text \<open>
  \<^bold>\<open>C9\<close>. For a column of \<^verbatim>\<open>columnsToCheck\<close> that the table has, the count is not
  zero and no \<^verbatim>\<open>ALTER TABLE\<close> is sent for it. On a table that has both columns the
  provisioner sends the two counts and nothing else, and the table keeps its columns;
  this holds whichever statements the server fails. After a run in which no statement
  failed, another run changes nothing.
\<close>

theorem checkAndAddColumns_idempotent:
  "(c \<in> set columnsToCheck \<and> c \<in> set cols \<longrightarrow>
      column_count cols c \<noteq> 0
      \<and> (\<forall>ty. AddColumn c ty \<notin> set (snd (checkAndAddColumns fails cols))))
   \<and> (set columnsToCheck \<subseteq> set cols \<longrightarrow>
        checkAndAddColumns fails cols = (cols, map CountColumn columnsToCheck))
   \<and> ((\<forall>s. \<not> fails s) \<longrightarrow>
        fst (checkAndAddColumns fails' (fst (checkAndAddColumns fails cols)))
          = fst (checkAndAddColumns fails cols))"
proof (intro conjI impI allI)
  assume a: "c \<in> set columnsToCheck \<and> c \<in> set cols"
  then show "column_count cols c \<noteq> 0" by (simp add: column_count_eq_0_iff)
  fix ty
  from a show "AddColumn c ty \<notin> set (snd (checkAndAddColumns fails cols))"
    by (auto simp add: checkAndAddColumns_def columnsToCheck_def count_callback_def
          run_count_def column_count_eq_0_iff split: if_splits)
next
  assume "set columnsToCheck \<subseteq> set cols"
  then show "checkAndAddColumns fails cols = (cols, map CountColumn columnsToCheck)"
    by (simp add: checkAndAddColumns_def columnsToCheck_def count_callback_present)
next
  assume nofail: "\<forall>s. \<not> fails s"
  have after: "set columnsToCheck \<subseteq> set (fst (checkAndAddColumns fails cols))"
    using nofail
    by (auto simp add: checkAndAddColumns_def columnsToCheck_def count_callback_def
          run_count_def column_count_eq_0_iff)
  show "fst (checkAndAddColumns fails' (fst (checkAndAddColumns fails cols)))
          = fst (checkAndAddColumns fails cols)"
    using after
    by (simp add: checkAndAddColumns_def[of fails'] columnsToCheck_def count_callback_present)
qed

theorem checkAndAddColumns_idempotent_witness:
  "checkAndAddColumns (\<lambda>s. False)
     [''id'', ''fullname'', ''email'', ''password'', ''age'', ''gender'', ''profile_image'',
      ''cv_filename'', ''reg_date'']
     = ([''id'', ''fullname'', ''email'', ''password'', ''age'', ''gender'', ''profile_image'',
         ''cv_filename'', ''reg_date''],
        [CountColumn ''profile_image'', CountColumn ''cv_filename''])
   \<and> column_count [''id'', ''fullname'', ''email'', ''password'', ''age'', ''gender'',
        ''profile_image'', ''cv_filename'', ''reg_date''] ''cv_filename'' \<noteq> 0
   \<and> fst (checkAndAddColumns (\<lambda>s. False)
            (fst (checkAndAddColumns (\<lambda>s. False) [''id'', ''fullname'', ''email'', ''password''])))
       = [''id'', ''fullname'', ''email'', ''password'', ''profile_image'', ''cv_filename'']"
proof -
  let ?new = "[''id'', ''fullname'', ''email'', ''password'', ''age'', ''gender'',
        ''profile_image'', ''cv_filename'', ''reg_date'']"
  let ?old = "[''id'', ''fullname'', ''email'', ''password'']"
  have a: "''cv_filename'' \<in> set columnsToCheck \<and> ''cv_filename'' \<in> set ?new"
    by (simp add: columnsToCheck_def)
  have b: "set columnsToCheck \<subseteq> set ?new" by (simp add: columnsToCheck_def)
  have c: "\<forall>s. \<not> (\<lambda>s::statement. False) s" by simp
  have d: "fst (checkAndAddColumns (\<lambda>s. False) ?old) = ?old @ [''profile_image'', ''cv_filename'']"
    by (simp add: checkAndAddColumns_def columnsToCheck_def run_count_def count_callback_def
          column_count_def)
  note w = checkAndAddColumns_idempotent[of "''cv_filename''" ?new "\<lambda>s. False"]
  from w a have r1: "column_count ?new ''cv_filename'' \<noteq> 0" by blast
  from w b have r2: "checkAndAddColumns (\<lambda>s. False) ?new = (?new, map CountColumn columnsToCheck)"
    by blast
  from checkAndAddColumns_idempotent[of _ ?old "\<lambda>s. False" "\<lambda>s. False"] c
  have r3: "fst (checkAndAddColumns (\<lambda>s. False) (fst (checkAndAddColumns (\<lambda>s. False) ?old)))
          = fst (checkAndAddColumns (\<lambda>s. False) ?old)" by blast
  from r1 r2 r3 d show ?thesis by (simp add: columnsToCheck_def)
qed

end
